theory Spec2Isabelle
  imports Complex_Main
begin

section \<open>Data model (productTypes)\<close>

text \<open>
  A JavaScript \<open>number\<close> as far as the form validation looks at it: the price is
  only tested with \<open>Number.isNaN\<close> and compared with zero, so a number is \<open>NaN\<close>, an
  infinity, or a finite value. The integer-valued fields (\<open>id\<close>, \<open>total\<close>,
  \<open>skip\<close>, \<open>limit\<close>, the reading of \<open>Date.now()\<close>) hold doubles whose value is
  an integer; they are carried as \<open>int\<close>, and the one sum the components compute on
  them, \<open>oldData.total + 1\<close>, is the addition of doubles (\<open>js_add\<close> below).
\<close>

datatype number = NaN | NegInfinity | Finite real | PosInfinity

definition isNaN :: "number \<Rightarrow> bool" where
  "isNaN x = (case x of NaN \<Rightarrow> True | _ \<Rightarrow> False)"

text \<open>The comparison \<open>x <= 0\<close>, which is false on \<open>NaN\<close>.\<close>

definition le_zero :: "number \<Rightarrow> bool" where
  "le_zero x = (case x of NaN \<Rightarrow> False | NegInfinity \<Rightarrow> True
                | Finite r \<Rightarrow> r \<le> 0 | PosInfinity \<Rightarrow> False)"

record NewProduct =
  np_title :: string
  np_price :: number

record ProductResponse =
  pr_id :: int
  pr_title :: string
  pr_price :: number
  pr_thumbnail :: "string option"
  pr_description :: "string option"
  pr_images :: "string list option"

text \<open>
  \<open>ProductsQueryData\<close>. The cache holds whatever object the list query returned, so
  the cached value is the record scheme: the extension part stands for any further
  field of the object, which the spread \<open>...oldData\<close> copies.
\<close>

record ProductsQueryData =
  qd_products :: "ProductResponse list"
  qd_total :: int
  qd_skip :: int
  qd_limit :: int

datatype jserror = Error string

section \<open>The runtime and the outside world\<close>

text \<open>What \<open>fetch\<close> gives back: the promise rejects, or resolves to a response whose
  \<open>json()\<close> itself resolves to the parsed body or rejects.\<close>

record Response =
  ok :: bool
  json :: "jserror + ProductResponse"

datatype fetch_result = Rejected jserror | Resolved Response

text \<open>
  Everything one run of the submit handler takes from outside the repository: the string
  built-ins \<open>trim\<close> and \<open>parseFloat\<close>, the reading of \<open>Date.now()\<close>, and the outcome
  of the POST request. The built-ins are parameters, so every theorem below holds for
  whatever they compute.
\<close>

record env =
  trim :: "string \<Rightarrow> string"
  parseFloat :: "string \<Rightarrow> number"
  now :: int
  fetch :: fetch_result

type_synonym queryKey = "string list"

definition products_key :: queryKey where
  "products_key = [''products'']"

definition add_url :: string where
  "add_url = ''https://dummyjson.com/products/add''"

text \<open>The calls a component makes on the query client, the network and the timer, in
  the order it makes them.\<close>

datatype call =
    CancelQueries queryKey
  | SetQueryData queryKey
  | InvalidateQueries queryKey
  | Post string NewProduct
  | SetTimeout nat

datatype mutation_status = StatusIdle | StatusPending | StatusError | StatusSuccess

datatype demo_mode = Normal | Slow | ErrorMode

text \<open>
  The state a component works on: its two form fields, the query cache, the trace of
  calls, the alerts shown, and the mutation's status with its last error. Console output
  is not modelled.
\<close>

record 'p world =
  title :: string
  price :: string
  cache :: "queryKey \<rightharpoonup> 'p ProductsQueryData_scheme"
  calls :: "call list"
  alerts :: "string list"
  status :: mutation_status
  failure :: "jserror option"

record 'p demo_world = "'p world" +
  demoMode :: demo_mode

section \<open>The query client\<close>

text \<open>
  The operations of the query client that the components call. The client belongs to the
  query library, not to the repository: it is modelled by its documented contract, as far
  as the components observe it. \<open>setQueryData\<close> applies the updater to the current value
  and stores the result, and does nothing when the updater returns \<open>undefined\<close>; a plain
  value is the constant updater. \<open>cancelQueries\<close> and \<open>invalidateQueries\<close> act on
  fetches, which are outside the cache data: they are recorded in the trace, and the
  refetch that an invalidation starts is not part of a run.
\<close>

definition cancelQueries :: "queryKey \<Rightarrow> ('p, 'z) world_scheme \<Rightarrow> ('p, 'z) world_scheme" where
  "cancelQueries k s = s\<lparr>calls := calls s @ [CancelQueries k]\<rparr>"

definition getQueryData ::
  "queryKey \<Rightarrow> ('p, 'z) world_scheme \<Rightarrow> 'p ProductsQueryData_scheme option" where
  "getQueryData k s = cache s k"

definition setQueryData ::
  "queryKey \<Rightarrow> ('p ProductsQueryData_scheme option \<Rightarrow> 'p ProductsQueryData_scheme option)
     \<Rightarrow> ('p, 'z) world_scheme \<Rightarrow> ('p, 'z) world_scheme" where
  "setQueryData k updater s =
     (case updater (cache s k) of
        None \<Rightarrow> s\<lparr>calls := calls s @ [SetQueryData k]\<rparr>
      | Some data \<Rightarrow> s\<lparr>cache := (cache s)(k \<mapsto> data), calls := calls s @ [SetQueryData k]\<rparr>)"

definition invalidateQueries :: "queryKey \<Rightarrow> ('p, 'z) world_scheme \<Rightarrow> ('p, 'z) world_scheme" where
  "invalidateQueries k s = s\<lparr>calls := calls s @ [InvalidateQueries k]\<rparr>"

text \<open>
  The life cycle that the library's \<open>useMutation\<close> gives the callbacks of a component,
  for one call of \<open>mutate\<close>: \<open>onMutate\<close> is awaited, then the mutation function, then
  \<open>onSuccess\<close> or \<open>onError\<close> according to whether it returned or threw, then
  \<open>onSettled\<close>; the status flags are what the component displays. An awaited promise
  is a step that is complete before the next one starts. The callbacks of the two
  components do not throw, so the life cycle has no branch for that.
\<close>

definition useMutation ::
  "('v \<Rightarrow> ('p, 'z) world_scheme \<Rightarrow> (jserror + 'd) \<times> ('p, 'z) world_scheme)
   \<Rightarrow> ('v \<Rightarrow> ('p, 'z) world_scheme \<Rightarrow> 'c \<times> ('p, 'z) world_scheme)
   \<Rightarrow> (jserror \<Rightarrow> 'v \<Rightarrow> 'c option \<Rightarrow> ('p, 'z) world_scheme \<Rightarrow> ('p, 'z) world_scheme)
   \<Rightarrow> ('d \<Rightarrow> 'v \<Rightarrow> 'c option \<Rightarrow> ('p, 'z) world_scheme \<Rightarrow> ('p, 'z) world_scheme)
   \<Rightarrow> ('d option \<Rightarrow> jserror option \<Rightarrow> 'v \<Rightarrow> 'c option \<Rightarrow> ('p, 'z) world_scheme \<Rightarrow> ('p, 'z) world_scheme)
   \<Rightarrow> 'v \<Rightarrow> ('p, 'z) world_scheme \<Rightarrow> ('p, 'z) world_scheme" where
  "useMutation mutationFn_cb onMutate_cb onError_cb onSuccess_cb onSettled_cb variables s =
     (let (context, s1) = onMutate_cb variables (s\<lparr>status := StatusPending, failure := None\<rparr>);
          (result, s2) = mutationFn_cb variables s1
      in case result of
           Inr data \<Rightarrow>
             (onSettled_cb (Some data) None variables (Some context)
                (onSuccess_cb data variables (Some context) s2))
               \<lparr>status := StatusSuccess\<rparr>
         | Inl err \<Rightarrow>
             (onSettled_cb None (Some err) variables (Some context)
                (onError_cb err variables (Some context) s2))
               \<lparr>status := StatusError, failure := Some err\<rparr>)"

section \<open>Addition of numbers\<close>

text \<open>
  A double has a significand of 53 bits. Up to magnitude \<open>2 ^ 53\<close> every integer is a
  double; from there on the doubles are spaced 2 apart, then 4, and so on:
  \<open>ulp_of m\<close> is the spacing at magnitude \<open>m\<close>.
\<close>

function ulp_of :: "nat \<Rightarrow> nat" where
  "ulp_of m = (if m < 2 ^ 53 then 1 else 2 * ulp_of (m div 2))"
  by pat_completeness auto
termination
  by (relation "measure (\<lambda>m. m)") auto

text \<open>Rounding an integer to the nearest double, a tie going to the even significand.\<close>

definition round_to_double :: "int \<Rightarrow> int" where
  "round_to_double m =
     (let ulp = int (ulp_of (nat \<bar>m\<bar>));
          q = \<bar>m\<bar> div ulp;
          r = \<bar>m\<bar> mod ulp
      in sgn m * ulp *
           (if 2 * r < ulp then q
            else if ulp < 2 * r then q + 1
            else if even q then q else q + 1))"

text \<open>
  The sum \<open>x + y\<close> of two integer-valued doubles: the exact sum, rounded. (Adding 1 to
  a double never overflows: the largest double plus one rounds back to itself.)
\<close>

definition js_add :: "int \<Rightarrow> int \<Rightarrow> int" where
  "js_add x y = round_to_double (x + y)"

section \<open>Template literals\<close>

text \<open>The decimal digits of an integer, as \<open>${timestamp}\<close> prints it.\<close>

function digits_of :: "nat \<Rightarrow> string" where
  "digits_of n =
     (if n < 10 then [''0123456789'' ! n]
      else digits_of (n div 10) @ [''0123456789'' ! (n mod 10)])"
  by pat_completeness auto
termination
  by (relation "measure (\<lambda>n. n)") auto

definition toString :: "int \<Rightarrow> string" where
  "toString i = (if i < 0 then CHR ''-'' # digits_of (nat (- i)) else digits_of (nat i))"

section \<open>AddProductOptimistic\<close>

record 'p MutationContext =
  previousProducts :: "'p ProductsQueryData_scheme option"

record 'p TitleContext = "'p MutationContext" +
  optimisticProductTitle :: string

definition mutationFn ::
  "env \<Rightarrow> NewProduct \<Rightarrow> ('p, 'z) world_scheme
     \<Rightarrow> (jserror + ProductResponse) \<times> ('p, 'z) world_scheme" where
  "mutationFn e newProduct s =
     (let s1 = s\<lparr>calls := calls s @ [Post add_url newProduct]\<rparr>
      in case fetch e of
           Rejected err \<Rightarrow> (Inl err, s1)
         | Resolved response \<Rightarrow>
             if \<not> ok response then (Inl (Error ''Failed to add product''), s1)
             else (json response, s1))"

definition optimisticProduct :: "int \<Rightarrow> NewProduct \<Rightarrow> ProductResponse" where
  "optimisticProduct timestamp newProduct =
     \<lparr>pr_id = timestamp,
      pr_title = np_title newProduct,
      pr_price = np_price newProduct,
      pr_thumbnail = Some (''https://picsum.photos/150/150?random='' @ toString timestamp),
      pr_description = Some ''Recently added product'',
      pr_images = Some [''https://picsum.photos/300/300?random='' @ toString timestamp]\<rparr>"

text \<open>The updater passed to \<open>setQueryData\<close> in \<open>onMutate\<close>.\<close>

definition updater ::
  "env \<Rightarrow> NewProduct \<Rightarrow> 'p ProductsQueryData_scheme option
     \<Rightarrow> 'p ProductsQueryData_scheme option" where
  "updater e newProduct oldData =
     (case oldData of
        None \<Rightarrow> None
      | Some old \<Rightarrow>
          Some (old\<lparr>qd_products := optimisticProduct (now e) newProduct # qd_products old,
                    qd_total := js_add (qd_total old) 1\<rparr>))"

definition onMutate ::
  "env \<Rightarrow> NewProduct \<Rightarrow> ('p, 'z) world_scheme \<Rightarrow> 'p TitleContext \<times> ('p, 'z) world_scheme" where
  "onMutate e newProduct s =
     (let s1 = cancelQueries products_key s;
          previous = getQueryData products_key s1;
          s2 = setQueryData products_key (updater e newProduct) s1
      in (\<lparr>previousProducts = previous, optimisticProductTitle = np_title newProduct\<rparr>, s2))"

text \<open>\<open>onError\<close> reads only \<open>previousProducts\<close> of the context, so it is stated on the
  context scheme and serves both components, whose \<open>onError\<close> bodies differ in their
  console output only.\<close>

definition onError ::
  "jserror \<Rightarrow> NewProduct \<Rightarrow> ('p, 'x) MutationContext_scheme option
     \<Rightarrow> ('p, 'z) world_scheme \<Rightarrow> ('p, 'z) world_scheme" where
  "onError err newProduct context s =
     (case context of
        None \<Rightarrow> s
      | Some c \<Rightarrow>
          (case previousProducts c of
             None \<Rightarrow> s
           | Some previous \<Rightarrow> setQueryData products_key (\<lambda>_. Some previous) s))"

definition onSuccess ::
  "ProductResponse \<Rightarrow> NewProduct \<Rightarrow> 'c option \<Rightarrow> ('p, 'z) world_scheme
     \<Rightarrow> ('p, 'z) world_scheme" where
  "onSuccess serverResponse newProduct context s = s\<lparr>title := [], price := []\<rparr>"

definition onSettled ::
  "ProductResponse option \<Rightarrow> jserror option \<Rightarrow> NewProduct \<Rightarrow> 'c option
     \<Rightarrow> ('p, 'z) world_scheme \<Rightarrow> ('p, 'z) world_scheme" where
  "onSettled data err variables context s = invalidateQueries products_key s"

definition mutate :: "env \<Rightarrow> NewProduct \<Rightarrow> ('p, 'z) world_scheme \<Rightarrow> ('p, 'z) world_scheme" where
  "mutate e = useMutation (mutationFn e) (onMutate e) onError onSuccess onSettled"

definition handleSubmit :: "env \<Rightarrow> ('p, 'z) world_scheme \<Rightarrow> ('p, 'z) world_scheme" where
  "handleSubmit e s =
     (if trim e (title s) = [] \<or> trim e (price s) = []
      then s\<lparr>alerts := alerts s @ [''Please fill in both title and price'']\<rparr>
      else let priceNumber = parseFloat e (price s)
           in if isNaN priceNumber \<or> le_zero priceNumber
              then s\<lparr>alerts := alerts s @ [''Please enter a valid price'']\<rparr>
              else mutate e \<lparr>np_title = trim e (title s), np_price = priceNumber\<rparr> s)"

section \<open>OptimisticUpdateDemo\<close>

text \<open>The three demo scenarios; \<open>demoMode\<close> has no fourth value, so the final
  \<open>throw\<close> of the source is not reached.\<close>

definition mutationFn_demo ::
  "env \<Rightarrow> NewProduct \<Rightarrow> ('p, 'z) demo_world_scheme
     \<Rightarrow> (jserror + ProductResponse) \<times> ('p, 'z) demo_world_scheme" where
  "mutationFn_demo e newProduct s =
     (case demoMode s of
        Normal \<Rightarrow>
          (let s1 = s\<lparr>calls := calls s @ [Post add_url newProduct]\<rparr>
           in case fetch e of
                Rejected err \<Rightarrow> (Inl err, s1)
              | Resolved response \<Rightarrow> (json response, s1))
      | Slow \<Rightarrow>
          (let s1 = s\<lparr>calls := calls s @ [SetTimeout 6000]\<rparr>;
               s2 = s1\<lparr>calls := calls s1 @ [Post add_url newProduct]\<rparr>
           in case fetch e of
                Rejected err \<Rightarrow> (Inl err, s2)
              | Resolved response \<Rightarrow> (json response, s2))
      | ErrorMode \<Rightarrow>
          (Inl (Error ''Server temporarily unavailable (demo error)''),
           s\<lparr>calls := calls s @ [SetTimeout 1000]\<rparr>))"

definition optimisticProduct_demo :: "int \<Rightarrow> NewProduct \<Rightarrow> ProductResponse" where
  "optimisticProduct_demo timestamp newProduct =
     \<lparr>pr_id = timestamp,
      pr_title = np_title newProduct,
      pr_price = np_price newProduct,
      pr_thumbnail = Some (''https://picsum.photos/150/150?random='' @ toString timestamp),
      pr_description = Some (np_title newProduct @ '' - Added via optimistic update''),
      pr_images = Some [''https://picsum.photos/300/300?random='' @ toString timestamp]\<rparr>"

definition updater_demo ::
  "int \<Rightarrow> NewProduct \<Rightarrow> 'p ProductsQueryData_scheme option
     \<Rightarrow> 'p ProductsQueryData_scheme option" where
  "updater_demo timestamp newProduct oldData =
     (case oldData of
        None \<Rightarrow> None
      | Some old \<Rightarrow>
          Some (old\<lparr>qd_products := optimisticProduct_demo timestamp newProduct # qd_products old,
                    qd_total := js_add (qd_total old) 1\<rparr>))"

record 'p TimestampContext = "'p MutationContext" +
  timestamp :: int

definition onMutate_demo ::
  "env \<Rightarrow> NewProduct \<Rightarrow> ('p, 'z) world_scheme
     \<Rightarrow> 'p TimestampContext \<times> ('p, 'z) world_scheme" where
  "onMutate_demo e newProduct s =
     (let ts = now e;
          s1 = cancelQueries products_key s;
          previous = getQueryData products_key s1;
          s2 = setQueryData products_key (updater_demo ts newProduct) s1
      in (\<lparr>previousProducts = previous, timestamp = ts\<rparr>, s2))"

definition mutate_demo ::
  "env \<Rightarrow> NewProduct \<Rightarrow> ('p, 'z) demo_world_scheme \<Rightarrow> ('p, 'z) demo_world_scheme" where
  "mutate_demo e = useMutation (mutationFn_demo e) (onMutate_demo e) onError onSuccess onSettled"

definition handleSubmit_demo ::
  "env \<Rightarrow> ('p, 'z) demo_world_scheme \<Rightarrow> ('p, 'z) demo_world_scheme" where
  "handleSubmit_demo e s =
     (if trim e (title s) = [] \<or> trim e (price s) = [] then s
      else let priceNumber = parseFloat e (price s)
           in if isNaN priceNumber \<or> le_zero priceNumber then s
              else mutate_demo e \<lparr>np_title = trim e (title s), np_price = priceNumber\<rparr> s)"

section \<open>Scenarios\<close>

text \<open>
  The number of items of an entry as \<open>onMutate\<close> reports it
  (\<open>previousProducts?.products?.length || 0\<close>): an absent entry counts as 0.
\<close>

definition item_count :: "'p ProductsQueryData_scheme option \<Rightarrow> nat" where
  "item_count d = (case d of None \<Rightarrow> 0 | Some c \<Rightarrow> length (qd_products c))"

text \<open>
  Concrete inputs on which the theorems below are run: a runtime whose \<open>trim\<close> strips
  blanks and whose \<open>parseFloat\<close> knows the three prices used, a cache holding one
  product \<open>A\<close>, a cache that was never loaded, and the three outcomes of the POST.
\<close>

definition scenario_trim :: "string \<Rightarrow> string" where
  "scenario_trim s =
     rev (dropWhile (\<lambda>c. c = CHR '' '') (rev (dropWhile (\<lambda>c. c = CHR '' '') s)))"

definition scenario_parseFloat :: "string \<Rightarrow> number" where
  "scenario_parseFloat s =
     (if s = ''1.5'' then Finite (3 / 2) else if s = ''2'' then Finite 2
      else if s = ''-1'' then Finite (- 1) else NaN)"

definition product_A :: ProductResponse where
  "product_A = \<lparr>pr_id = 1, pr_title = ''A'', pr_price = Finite 10, pr_thumbnail = None,
                 pr_description = None, pr_images = None\<rparr>"

definition server_pen :: ProductResponse where
  "server_pen = \<lparr>pr_id = 99, pr_title = ''Pen'', pr_price = Finite (3 / 2),
                  pr_thumbnail = None, pr_description = None, pr_images = None\<rparr>"

definition scenario_env :: "fetch_result \<Rightarrow> env" where
  "scenario_env r =
     \<lparr>trim = scenario_trim, parseFloat = scenario_parseFloat, now = 1000, fetch = r\<rparr>"

definition env_reject :: env where
  "env_reject = scenario_env (Rejected (Error ''Failed to fetch''))"

definition env_ok :: env where
  "env_ok = scenario_env (Resolved \<lparr>ok = True, json = Inr server_pen\<rparr>)"

definition env_500 :: env where
  "env_500 = scenario_env (Resolved \<lparr>ok = False, json = Inr server_pen\<rparr>)"

definition collection_A :: ProductsQueryData where
  "collection_A = \<lparr>qd_products = [product_A], qd_total = 1, qd_skip = 0, qd_limit = 2\<rparr>"

text \<open>A collection whose \<open>total\<close> is \<open>2 ^ 53\<close>, the last integer before the doubles
  thin out.\<close>

definition collection_full :: ProductsQueryData where
  "collection_full =
     \<lparr>qd_products = [product_A], qd_total = 2 ^ 53, qd_skip = 0, qd_limit = 2\<rparr>"

definition world_full :: "unit world" where
  "world_full =
     \<lparr>title = ''Pen'', price = ''1.5'', cache = [products_key \<mapsto> collection_full],
      calls = [], alerts = [], status = StatusIdle, failure = None\<rparr>"

definition world_A :: "string \<Rightarrow> string \<Rightarrow> unit world" where
  "world_A t p =
     \<lparr>title = t, price = p, cache = [products_key \<mapsto> collection_A], calls = [],
      alerts = [], status = StatusIdle, failure = None\<rparr>"

definition world_unloaded :: "unit world" where
  "world_unloaded =
     \<lparr>title = ''Pen'', price = ''1.5'', cache = Map.empty, calls = [],
      alerts = [], status = StatusIdle, failure = None\<rparr>"

definition demo_A :: "string \<Rightarrow> string \<Rightarrow> demo_mode \<Rightarrow> unit demo_world" where
  "demo_A t p m =
     \<lparr>title = t, price = p, cache = [products_key \<mapsto> collection_A], calls = [],
      alerts = [], status = StatusIdle, failure = None, demoMode = m\<rparr>"

definition demo_unloaded :: "demo_mode \<Rightarrow> unit demo_world" where
  "demo_unloaded m =
     \<lparr>title = ''Pen'', price = ''1.5'', cache = Map.empty, calls = [],
      alerts = [], status = StatusIdle, failure = None, demoMode = m\<rparr>"

definition pen :: NewProduct where
  "pen = \<lparr>np_title = ''Pen'', np_price = Finite (3 / 2)\<rparr>"

definition bad :: NewProduct where
  "bad = \<lparr>np_title = ''Bad'', np_price = Finite 2\<rparr>"

section \<open>Basic facts\<close>

lemmas client_defs =
  cancelQueries_def getQueryData_def setQueryData_def invalidateQueries_def

lemmas component_defs =
  mutate_def mutate_demo_def useMutation_def onMutate_def onMutate_demo_def
  mutationFn_def mutationFn_demo_def onError_def onSuccess_def onSettled_def client_defs
  updater_def updater_demo_def handleSubmit_def handleSubmit_demo_def Let_def
  isNaN_def le_zero_def

lemmas scenario_defs =
  scenario_trim_def scenario_parseFloat_def product_A_def server_pen_def
  scenario_env_def env_reject_def env_ok_def env_500_def collection_A_def world_A_def
  world_unloaded_def demo_A_def demo_unloaded_def pen_def bad_def collection_full_def
  world_full_def

text \<open>Integers of magnitude up to \<open>2 ^ 53\<close> are doubles, so sums that stay there are
  exact.\<close>

lemma ulp_of_small: "m < 2 ^ 53 \<Longrightarrow> ulp_of m = 1"
  by simp

lemma ulp_of_2_53: "ulp_of (2 ^ 53) = 2"
  by simp

lemma round_to_double_exact: "\<bar>m\<bar> \<le> 2 ^ 53 \<Longrightarrow> round_to_double m = m"
proof (cases "\<bar>m\<bar> = 2 ^ 53")
  case True
  then have "nat \<bar>m\<bar> = 2 ^ 53"
    by simp
  then have "ulp_of (nat \<bar>m\<bar>) = 2"
    by (simp only: ulp_of_2_53)
  with True show ?thesis
    by (auto simp add: round_to_double_def Let_def sgn_if)
next
  case False
  assume "\<bar>m\<bar> \<le> 2 ^ 53"
  with False have "nat \<bar>m\<bar> < 2 ^ 53"
    by simp
  then have "ulp_of (nat \<bar>m\<bar>) = 1"
    by (rule ulp_of_small)
  then show ?thesis
    by (auto simp add: round_to_double_def Let_def sgn_if)
qed

lemma js_add_one_exact: "- (2 ^ 53) \<le> x \<Longrightarrow> x < 2 ^ 53 \<Longrightarrow> js_add x 1 = x + 1"
  by (simp add: js_add_def round_to_double_exact)

text \<open>Beyond that range the sum rounds: at \<open>2 ^ 53\<close> adding one changes nothing, and
  two above it the sum lands two further up.\<close>

lemma js_add_one_rounds:
  "js_add (2 ^ 53) 1 = 2 ^ 53
   \<and> js_add (2 ^ 53 + 2) 1 = 2 ^ 53 + 4
   \<and> js_add (2 ^ 54) 1 = 2 ^ 54
   \<and> js_add (- (2 ^ 54)) 1 = - (2 ^ 54)"
  by (simp add: js_add_def round_to_double_def Let_def)

lemma cache_onMutate:
  "cache (snd (onMutate e np s)) =
     (case cache s products_key of
        None \<Rightarrow> cache s
      | Some old \<Rightarrow> (cache s)(products_key \<mapsto>
          old\<lparr>qd_products := optimisticProduct (now e) np # qd_products old,
              qd_total := js_add (qd_total old) 1\<rparr>))"
  by (simp add: onMutate_def client_defs updater_def Let_def split: option.splits)

lemma cache_onMutate_demo:
  "cache (snd (onMutate_demo e np s)) =
     (case cache s products_key of
        None \<Rightarrow> cache s
      | Some old \<Rightarrow> (cache s)(products_key \<mapsto>
          old\<lparr>qd_products := optimisticProduct_demo (now e) np # qd_products old,
              qd_total := js_add (qd_total old) 1\<rparr>))"
  by (simp add: onMutate_demo_def client_defs updater_demo_def Let_def split: option.splits)

text \<open>The snapshot kept in the context is the entry as it was when \<open>onMutate\<close> began.\<close>

lemma snapshot_onMutate:
  "previousProducts (fst (onMutate e np s)) = cache s products_key"
  by (simp add: onMutate_def client_defs Let_def)

lemma snapshot_onMutate_demo:
  "previousProducts (fst (onMutate_demo e np s)) = cache s products_key"
  by (simp add: onMutate_demo_def client_defs Let_def)

lemma calls_onMutate:
  "calls (snd (onMutate e np s)) =
     calls s @ [CancelQueries products_key, SetQueryData products_key]"
  by (simp add: onMutate_def client_defs Let_def split: option.splits)

lemma calls_onMutate_demo:
  "calls (snd (onMutate_demo e np s)) =
     calls s @ [CancelQueries products_key, SetQueryData products_key]"
  by (simp add: onMutate_demo_def client_defs Let_def split: option.splits)

text \<open>With no snapshot in the context, \<open>onError\<close> skips the restore.\<close>

lemma onError_without_snapshot:
  "previousProducts c = None \<Longrightarrow> onError err np (Some c) s = s"
  by (simp add: onError_def)

text \<open>
  When a run of \<open>AddProductOptimistic\<close> ends in the error state: the request was
  rejected, the response was not \<open>ok\<close>, or its body did not parse.
\<close>

lemma mutate_fails_iff:
  "status (mutate e np s) = StatusError \<longleftrightarrow>
     (case fetch e of
        Rejected err \<Rightarrow> True
      | Resolved response \<Rightarrow> (if ok response then isl (json response) else True))"
  by (auto simp add: component_defs
      split: option.splits sum.splits fetch_result.splits if_splits prod.splits)

text \<open>The demo component in its normal and slow modes does not look at \<open>ok\<close>.\<close>

lemma mutate_demo_fails_iff:
  "status (mutate_demo e np s) = StatusError \<longleftrightarrow>
     (case demoMode s of
        ErrorMode \<Rightarrow> True
      | _ \<Rightarrow> (case fetch e of
                Rejected err \<Rightarrow> True
              | Resolved response \<Rightarrow> isl (json response)))"
  by (auto simp add: component_defs
      split: option.splits sum.splits fetch_result.splits if_splits prod.splits
        demo_mode.splits)

lemma cache_mutate_error:
  "status (mutate e np s) = StatusError \<Longrightarrow> cache (mutate e np s) = cache s"
  by (auto simp add: component_defs
      split: option.splits sum.splits fetch_result.splits if_splits prod.splits)

lemma cache_mutate_demo_error:
  "status (mutate_demo e np s) = StatusError \<Longrightarrow> cache (mutate_demo e np s) = cache s"
  by (auto simp add: component_defs
      split: option.splits sum.splits fetch_result.splits if_splits prod.splits
        demo_mode.splits)

section \<open>Rollback on failure\<close>

text \<open>
  Claim C1. Whenever a run ends in the error state, that is, the mutation function threw
  and \<open>onError\<close> ran, the cache entry for \<open>products\<close> is again the snapshot that
  \<open>onMutate\<close> took before its write, which is the entry the run started from; indeed the
  whole cache is as it was, so no speculative item is left. This holds for
  \<open>AddProductOptimistic\<close> and for \<open>OptimisticUpdateDemo\<close>.
\<close>

theorem rollback_restores_snapshot:
  "(status (mutate e np s) = StatusError \<longrightarrow>
      cache (mutate e np s) products_key
        = previousProducts (fst (onMutate e np (s\<lparr>status := StatusPending, failure := None\<rparr>)))
      \<and> cache (mutate e np s) = cache s)
   \<and> (status (mutate_demo e' np' d) = StatusError \<longrightarrow>
      cache (mutate_demo e' np' d) products_key
        = previousProducts
            (fst (onMutate_demo e' np' (d\<lparr>status := StatusPending, failure := None\<rparr>)))
      \<and> cache (mutate_demo e' np' d) = cache d)"
  by (simp add: snapshot_onMutate snapshot_onMutate_demo cache_mutate_error
      cache_mutate_demo_error)

theorem rollback_restores_snapshot_witness:
  "status (mutate env_reject bad (world_A ''Bad'' ''2'')) = StatusError
   \<and> cache (mutate env_reject bad (world_A ''Bad'' ''2'')) products_key = Some collection_A
   \<and> status (mutate_demo env_ok bad (demo_A ''Bad'' ''2'' ErrorMode)) = StatusError
   \<and> cache (mutate_demo env_ok bad (demo_A ''Bad'' ''2'' ErrorMode)) products_key
       = Some collection_A"
proof -
  have failed: "status (mutate env_reject bad (world_A ''Bad'' ''2'')) = StatusError"
    by (simp add: scenario_defs component_defs)
  have failed_demo: "status (mutate_demo env_ok bad (demo_A ''Bad'' ''2'' ErrorMode)) = StatusError"
    by (simp add: scenario_defs component_defs)
  have before: "cache (world_A ''Bad'' ''2'') products_key = Some collection_A"
    by (simp add: world_A_def)
  have before_demo: "cache (demo_A ''Bad'' ''2'' ErrorMode) products_key = Some collection_A"
    by (simp add: demo_A_def)
  from rollback_restores_snapshot [of env_reject bad "world_A ''Bad'' ''2''"
      env_ok bad "demo_A ''Bad'' ''2'' ErrorMode"]
  show ?thesis
    using failed failed_demo before before_demo by simp
qed

section \<open>The optimistic write\<close>

text \<open>
  Claim C2, as stated, fails in two places. On a cache that was never loaded the updater
  returns \<open>undefined\<close>, the entry stays absent, and the item count is not the old count
  plus one. On an entry whose \<open>total\<close> is \<open>2 ^ 53\<close> the sum \<open>oldData.total + 1\<close>
  rounds back to \<open>2 ^ 53\<close>: the placeholder is added but \<open>total\<close> is not incremented,
  in either component.
\<close>

theorem optimistic_insert_counterexample:
  "cache (snd (onMutate env_ok pen world_unloaded)) products_key = None
   \<and> item_count (cache (snd (onMutate env_ok pen world_unloaded)) products_key)
       \<noteq> item_count (cache world_unloaded products_key) + 1
   \<and> map_option qd_total (cache world_full products_key) = Some (2 ^ 53)
   \<and> map_option qd_total (cache (snd (onMutate env_ok pen world_full)) products_key)
       = Some (2 ^ 53)
   \<and> map_option qd_total (cache (snd (onMutate env_ok pen world_full)) products_key)
       \<noteq> map_option (\<lambda>t. t + 1) (map_option qd_total (cache world_full products_key))
   \<and> map_option qd_total (cache (snd (onMutate_demo env_ok pen world_full)) products_key)
       = Some (2 ^ 53)"
  by (simp add: scenario_defs component_defs item_count_def js_add_def round_to_double_def)

text \<open>
  Claim C2, amended. When the cache holds an entry for \<open>products\<close>, then on return from
  \<open>onMutate\<close>, before the mutation function is called, the entry is the old one with the
  placeholder product in front of its items and with \<open>total\<close> replaced by the double sum
  \<open>total + 1\<close>, so the item count is the old count plus one. The placeholder carries the
  clock reading as its id and the title and the price of the input. When moreover the old
  \<open>total\<close> is an integer from \<open>- 2 ^ 53\<close> up to but not including \<open>2 ^ 53\<close>, that sum
  is exact and \<open>total\<close> is one higher. This holds in both components and for every input,
  valid ones included.
\<close>

theorem optimistic_insert_when_loaded:
  "cache s products_key = Some old \<Longrightarrow>
     cache (snd (onMutate e np s)) products_key
       = Some (old\<lparr>qd_products := optimisticProduct (now e) np # qd_products old,
                    qd_total := js_add (qd_total old) 1\<rparr>)
     \<and> item_count (cache (snd (onMutate e np s)) products_key)
         = item_count (cache s products_key) + 1
     \<and> cache (snd (onMutate_demo e np s)) products_key
       = Some (old\<lparr>qd_products := optimisticProduct_demo (now e) np # qd_products old,
                    qd_total := js_add (qd_total old) 1\<rparr>)
     \<and> item_count (cache (snd (onMutate_demo e np s)) products_key)
         = item_count (cache s products_key) + 1
     \<and> pr_id (optimisticProduct (now e) np) = now e
     \<and> pr_title (optimisticProduct (now e) np) = np_title np
     \<and> pr_price (optimisticProduct (now e) np) = np_price np
     \<and> pr_id (optimisticProduct_demo (now e) np) = now e
     \<and> pr_title (optimisticProduct_demo (now e) np) = np_title np
     \<and> pr_price (optimisticProduct_demo (now e) np) = np_price np
     \<and> (- (2 ^ 53) \<le> qd_total old \<and> qd_total old < 2 ^ 53 \<longrightarrow>
           map_option qd_total (cache (snd (onMutate e np s)) products_key)
             = Some (qd_total old + 1)
           \<and> map_option qd_total (cache (snd (onMutate_demo e np s)) products_key)
             = Some (qd_total old + 1))"
  by (simp add: cache_onMutate cache_onMutate_demo item_count_def optimisticProduct_def
      optimisticProduct_demo_def js_add_one_exact)

theorem optimistic_insert_when_loaded_witness:
  "cache (world_A ''Bad'' ''2'') products_key = Some collection_A
   \<and> - (2 ^ 53) \<le> qd_total collection_A \<and> qd_total collection_A < 2 ^ 53
   \<and> map_option (map pr_id \<circ> qd_products)
        (cache (snd (onMutate env_ok bad (world_A ''Bad'' ''2''))) products_key) = Some [1000, 1]
   \<and> map_option qd_total
        (cache (snd (onMutate env_ok bad (world_A ''Bad'' ''2''))) products_key) = Some 2
   \<and> map_option qd_total
        (cache (snd (onMutate_demo env_ok bad (world_A ''Bad'' ''2''))) products_key) = Some 2
   \<and> item_count (cache (snd (onMutate env_ok bad (world_A ''Bad'' ''2''))) products_key) = 2
   \<and> item_count (cache (snd (onMutate_demo env_ok bad (world_A ''Bad'' ''2''))) products_key) = 2"
proof -
  have loaded: "cache (world_A ''Bad'' ''2'') products_key = Some collection_A"
    by (simp add: world_A_def)
  have clock: "now env_ok = 1000"
    by (simp add: env_ok_def scenario_env_def)
  have old_items: "qd_products collection_A = [product_A]"
    and old_total: "qd_total collection_A = 1"
    by (simp_all add: collection_A_def)
  have in_range: "- (2 ^ 53) \<le> qd_total collection_A \<and> qd_total collection_A < 2 ^ 53"
    by (simp add: old_total)
  have old_id: "pr_id product_A = 1"
    by (simp add: product_A_def)
  have sum: "js_add 1 1 = 2"
    using js_add_one_exact [of 1] by simp
  from optimistic_insert_when_loaded [OF loaded, of env_ok bad]
  show ?thesis
    using loaded clock old_items old_total in_range old_id sum by (simp add: item_count_def)
qed

section \<open>Failure of the remote call\<close>

text \<open>
  In \<open>AddProductOptimistic\<close> a response that is not \<open>ok\<close> makes the mutation function
  throw: the run ends in the error state with the cache rolled back.
\<close>

lemma mutate_failure_status:
  "fetch e = Resolved response \<Longrightarrow> \<not> ok response \<Longrightarrow>
     status (mutate e np s) = StatusError
     \<and> failure (mutate e np s) = Some (Error ''Failed to add product'')
     \<and> cache (mutate e np s) = cache s"
  by (auto simp add: component_defs split: option.splits)

text \<open>
  Claim C3 does not hold of \<open>OptimisticUpdateDemo\<close>, whose mutation function returns
  \<open>response.json()\<close> without the test of \<open>response.ok\<close> that
  \<open>AddProductOptimistic\<close> makes. Run in normal mode on the cache holding \<open>A\<close>, with a
  response that is not \<open>ok\<close> and has a body: the run ends in the success state, no error
  is recorded, the form is reset, and the placeholder with id 1000 stays in the cache.
\<close>

theorem demo_failure_status_taken_as_success:
  "status (handleSubmit_demo env_500 (demo_A ''Bad'' ''2'' Normal)) = StatusSuccess
   \<and> failure (handleSubmit_demo env_500 (demo_A ''Bad'' ''2'' Normal)) = None
   \<and> title (handleSubmit_demo env_500 (demo_A ''Bad'' ''2'' Normal)) = []
   \<and> map_option (map pr_id \<circ> qd_products)
        (cache (handleSubmit_demo env_500 (demo_A ''Bad'' ''2'' Normal)) products_key)
       = Some [1000, 1]
   \<and> calls (handleSubmit_demo env_500 (demo_A ''Bad'' ''2'' Normal))
       = [CancelQueries products_key, SetQueryData products_key, Post add_url bad,
          InvalidateQueries products_key]"
  by (simp add: scenario_defs component_defs optimisticProduct_demo_def)

section \<open>Settling\<close>

text \<open>
  Claim C4. Every run of the mutation makes exactly one \<open>invalidateQueries\<close> call for
  the \<open>products\<close> key, as its last call, and ends in the success or in the error state:
  the entry is marked stale and refetched once whichever way the remote call went. This
  holds in both components.
\<close>

theorem settle_runs_once:
  "count_list (calls (mutate e np s)) (InvalidateQueries products_key)
     = count_list (calls s) (InvalidateQueries products_key) + 1
   \<and> last (calls (mutate e np s)) = InvalidateQueries products_key
   \<and> (status (mutate e np s) = StatusSuccess \<or> status (mutate e np s) = StatusError)
   \<and> count_list (calls (mutate_demo e' np' d)) (InvalidateQueries products_key)
     = count_list (calls d) (InvalidateQueries products_key) + 1
   \<and> last (calls (mutate_demo e' np' d)) = InvalidateQueries products_key
   \<and> (status (mutate_demo e' np' d) = StatusSuccess
        \<or> status (mutate_demo e' np' d) = StatusError)"
proof -
  have one: "count_list (calls (mutate e np s)) (InvalidateQueries products_key)
      = count_list (calls s) (InvalidateQueries products_key) + 1
    \<and> last (calls (mutate e np s)) = InvalidateQueries products_key
    \<and> (status (mutate e np s) = StatusSuccess \<or> status (mutate e np s) = StatusError)"
    by (auto simp add: component_defs
        split: option.splits sum.splits fetch_result.splits if_splits prod.splits)
  have two: "count_list (calls (mutate_demo e' np' d)) (InvalidateQueries products_key)
      = count_list (calls d) (InvalidateQueries products_key) + 1
    \<and> last (calls (mutate_demo e' np' d)) = InvalidateQueries products_key
    \<and> (status (mutate_demo e' np' d) = StatusSuccess
         \<or> status (mutate_demo e' np' d) = StatusError)"
    by (auto simp add: component_defs
        split: option.splits sum.splits fetch_result.splits if_splits prod.splits
          demo_mode.splits)
  from one two show ?thesis by simp
qed

section \<open>Validation\<close>

text \<open>
  Claim C5. When the title trims to the empty string, or the price parses to \<open>NaN\<close>, or
  to a value that is at most zero, \<open>handleSubmit\<close> returns before the mutation starts:
  the cache, the trace of calls (so no cancellation, no cache write, no request), the
  mutation status and the form are as before. \<open>AddProductOptimistic\<close> shows an alert;
  \<open>OptimisticUpdateDemo\<close> changes nothing at all.
\<close>

theorem invalid_input_rejected:
  "(trim e (title s) = [] \<or> isNaN (parseFloat e (price s)) \<or> le_zero (parseFloat e (price s))
      \<longrightarrow> cache (handleSubmit e s) = cache s \<and> calls (handleSubmit e s) = calls s
        \<and> status (handleSubmit e s) = status s \<and> failure (handleSubmit e s) = failure s
        \<and> title (handleSubmit e s) = title s \<and> price (handleSubmit e s) = price s)
   \<and> (trim e' (title d) = [] \<or> isNaN (parseFloat e' (price d))
        \<or> le_zero (parseFloat e' (price d))
      \<longrightarrow> handleSubmit_demo e' d = d)"
  by (auto simp add: handleSubmit_def handleSubmit_demo_def Let_def)

theorem invalid_input_rejected_witness:
  "trim env_ok (title (world_A ''   '' ''2'')) = []
   \<and> calls (handleSubmit env_ok (world_A ''   '' ''2'')) = []
   \<and> cache (handleSubmit env_ok (world_A ''   '' ''2'')) products_key = Some collection_A
   \<and> le_zero (parseFloat env_ok (price (demo_A ''Bad'' ''-1'' Normal)))
   \<and> handleSubmit_demo env_ok (demo_A ''Bad'' ''-1'' Normal) = demo_A ''Bad'' ''-1'' Normal
   \<and> isNaN (parseFloat env_ok (price (world_A ''Bad'' ''abc'')))
   \<and> calls (handleSubmit env_ok (world_A ''Bad'' ''abc'')) = []
   \<and> trim env_ok (title (demo_A [] ''2'' Slow)) = []
   \<and> handleSubmit_demo env_ok (demo_A [] ''2'' Slow) = demo_A [] ''2'' Slow"
proof -
  have blank: "trim env_ok (title (world_A ''   '' ''2'')) = []"
    by (simp add: scenario_defs)
  have negative: "le_zero (parseFloat env_ok (price (demo_A ''Bad'' ''-1'' Normal)))"
    by (simp add: scenario_defs le_zero_def)
  have unparseable: "isNaN (parseFloat env_ok (price (world_A ''Bad'' ''abc'')))"
    by (simp add: scenario_defs isNaN_def)
  have empty: "trim env_ok (title (demo_A [] ''2'' Slow)) = []"
    by (simp add: scenario_defs)
  have before: "calls (world_A t p) = [] \<and> cache (world_A t p) products_key = Some collection_A"
    for t p
    by (simp add: world_A_def)
  from invalid_input_rejected [of env_ok "world_A ''   '' ''2''"
      env_ok "demo_A ''Bad'' ''-1'' Normal"]
    invalid_input_rejected [of env_ok "world_A ''Bad'' ''abc''" env_ok "demo_A [] ''2'' Slow"]
  show ?thesis
    using blank negative unparseable empty before by simp
qed

section \<open>Temporary ids\<close>

text \<open>The temporary id of a run is the clock reading of that run, in both components.\<close>

lemma temporary_id_is_clock:
  "pr_id (optimisticProduct (now e) np) = now e
   \<and> pr_id (optimisticProduct_demo (now e) np) = now e
   \<and> timestamp (fst (onMutate_demo e np s)) = now e"
  by (simp add: optimisticProduct_def optimisticProduct_demo_def onMutate_demo_def Let_def)

text \<open>
  Claim C6 does not hold: nothing but the clock tells two runs apart. Two valid
  submissions to \<open>AddProductOptimistic\<close> at which \<open>Date.now()\<close> reads 1000 both times
  put two placeholders with the same id 1000 in the cache, in front of \<open>A\<close>.
\<close>

theorem temporary_id_collision:
  "map_option (map pr_id \<circ> qd_products)
     (cache (handleSubmit env_ok
               ((handleSubmit env_ok (world_A ''Pen'' ''1.5''))\<lparr>title := ''Pen'', price := ''2''\<rparr>))
        products_key)
   = Some [1000, 1000, 1]"
  by (simp add: scenario_defs component_defs optimisticProduct_def)

section \<open>Order of the steps\<close>

text \<open>
  Claim C7. The calls of a run come in this order: the cancellation of the fetches for
  \<open>products\<close>, then the cache write, then the POST request (in the demo's slow mode after
  its timer; its error mode makes no request). A read of the cache after \<open>onMutate\<close>
  returns what the updater made of the entry, and that is the state the mutation function
  starts from.
\<close>

theorem begin_steps_in_order:
  "(\<exists>rest. calls (mutate e np s)
       = calls s @ [CancelQueries products_key, SetQueryData products_key, Post add_url np]
           @ rest)
   \<and> calls (snd (onMutate e np s))
       = calls s @ [CancelQueries products_key, SetQueryData products_key]
   \<and> getQueryData products_key (snd (onMutate e np s)) = updater e np (cache s products_key)
   \<and> calls (snd (mutationFn e np (snd (onMutate e np s))))
       = calls s @ [CancelQueries products_key, SetQueryData products_key, Post add_url np]
   \<and> cache (snd (mutationFn e np (snd (onMutate e np s)))) = cache (snd (onMutate e np s))
   \<and> (\<exists>rest. calls (mutate_demo e' np' d)
       = calls d @ [CancelQueries products_key, SetQueryData products_key]
           @ (case demoMode d of
                Normal \<Rightarrow> [Post add_url np']
              | Slow \<Rightarrow> [SetTimeout 6000, Post add_url np']
              | ErrorMode \<Rightarrow> [SetTimeout 1000])
           @ rest)
   \<and> calls (snd (onMutate_demo e' np' d))
       = calls d @ [CancelQueries products_key, SetQueryData products_key]
   \<and> getQueryData products_key (snd (onMutate_demo e' np' d))
       = updater_demo (now e') np' (cache d products_key)"
proof -
  have first: "\<exists>rest. calls (mutate e np s)
       = calls s @ [CancelQueries products_key, SetQueryData products_key, Post add_url np]
           @ rest"
    by (auto simp add: component_defs
        split: option.splits sum.splits fetch_result.splits if_splits prod.splits)
  have second: "\<exists>rest. calls (mutate_demo e' np' d)
       = calls d @ [CancelQueries products_key, SetQueryData products_key]
           @ (case demoMode d of
                Normal \<Rightarrow> [Post add_url np']
              | Slow \<Rightarrow> [SetTimeout 6000, Post add_url np']
              | ErrorMode \<Rightarrow> [SetTimeout 1000])
           @ rest"
    by (auto simp add: component_defs
        split: option.splits sum.splits fetch_result.splits if_splits prod.splits
          demo_mode.splits)
  have reads: "getQueryData products_key (snd (onMutate e np s))
        = updater e np (cache s products_key)
    \<and> getQueryData products_key (snd (onMutate_demo e' np' d))
        = updater_demo (now e') np' (cache d products_key)"
    by (simp add: getQueryData_def cache_onMutate cache_onMutate_demo updater_def
        updater_demo_def split: option.splits)
  have request: "calls (snd (mutationFn e np w)) = calls w @ [Post add_url np]
    \<and> cache (snd (mutationFn e np w)) = cache w" for w :: "('a, 'b) world_scheme"
    by (simp add: mutationFn_def Let_def split: fetch_result.splits)
  from first second reads request [of "snd (onMutate e np s)"] show ?thesis
    by (simp add: calls_onMutate calls_onMutate_demo)
qed

section \<open>Rollback twice\<close>

text \<open>
  Claim C8. Running the rollback of \<open>onError\<close> a second time with the same context
  leaves the cache as the first run left it; apart from the trace of calls, the whole
  state is the same.
\<close>

theorem rollback_idempotent:
  "cache (onError err np context (onError err np context s))
     = cache (onError err np context s)
   \<and> (onError err np context (onError err np context s))
       \<lparr>calls := calls (onError err np context s)\<rparr>
     = onError err np context s"
  by (simp add: onError_def client_defs split: option.splits)

section \<open>What the optimistic write leaves alone\<close>

text \<open>
  Claim C9. On a cache holding an entry for \<open>products\<close>, the write of \<open>onMutate\<close> keeps
  the entry's \<open>skip\<close> and \<open>limit\<close> and every further field it has, and changes no other
  entry of the cache. This holds in both components.
\<close>

theorem optimistic_write_frame:
  "cache s products_key = Some old \<Longrightarrow>
     map_option qd_skip (cache (snd (onMutate e np s)) products_key) = Some (qd_skip old)
     \<and> map_option qd_limit (cache (snd (onMutate e np s)) products_key) = Some (qd_limit old)
     \<and> map_option ProductsQueryData.more (cache (snd (onMutate e np s)) products_key)
         = Some (ProductsQueryData.more old)
     \<and> cache (snd (onMutate e np s))
         = (cache s)(products_key := cache (snd (onMutate e np s)) products_key)
     \<and> map_option qd_skip (cache (snd (onMutate_demo e np s)) products_key)
         = Some (qd_skip old)
     \<and> map_option qd_limit (cache (snd (onMutate_demo e np s)) products_key)
         = Some (qd_limit old)
     \<and> map_option ProductsQueryData.more (cache (snd (onMutate_demo e np s)) products_key)
         = Some (ProductsQueryData.more old)
     \<and> cache (snd (onMutate_demo e np s))
         = (cache s)(products_key := cache (snd (onMutate_demo e np s)) products_key)"
  by (simp add: cache_onMutate cache_onMutate_demo)

theorem optimistic_write_frame_witness:
  "cache (world_A ''Bad'' ''2'') products_key = Some collection_A
   \<and> map_option qd_skip (cache (snd (onMutate env_ok bad (world_A ''Bad'' ''2''))) products_key)
       = Some 0
   \<and> map_option qd_limit (cache (snd (onMutate env_ok bad (world_A ''Bad'' ''2''))) products_key)
       = Some 2
   \<and> map_option qd_skip
        (cache (snd (onMutate_demo env_ok bad (world_A ''Bad'' ''2''))) products_key) = Some 0
   \<and> map_option qd_limit
        (cache (snd (onMutate_demo env_ok bad (world_A ''Bad'' ''2''))) products_key) = Some 2"
proof -
  have loaded: "cache (world_A ''Bad'' ''2'') products_key = Some collection_A"
    by (simp add: world_A_def)
  have paging: "qd_skip collection_A = 0 \<and> qd_limit collection_A = 2"
    by (simp add: collection_A_def)
  from optimistic_write_frame [OF loaded, of env_ok bad]
  show ?thesis
    using loaded paging by simp
qed

section \<open>A cache that was never loaded\<close>

text \<open>
  Claim C10. When the cache has no entry for \<open>products\<close> at the start of a run, the
  updater returns \<open>undefined\<close>, \<open>onMutate\<close> leaves the cache as it is, the snapshot in
  the context is absent so that \<open>onError\<close> does nothing at all, and the whole run, whether
  the remote call succeeds or fails, leaves the cache as it was, with the one
  \<open>setQueryData\<close> call of \<open>onMutate\<close> and no other. This holds in both components.
\<close>

theorem unloaded_cache_stays_unloaded:
  "(cache s products_key = None \<longrightarrow>
      updater e np (getQueryData products_key s) = None
      \<and> cache (snd (onMutate e np s)) = cache s
      \<and> onError err np (Some (fst (onMutate e np s))) w = w
      \<and> cache (mutate e np s) = cache s
      \<and> count_list (calls (mutate e np s)) (SetQueryData products_key)
          = count_list (calls s) (SetQueryData products_key) + 1)
   \<and> (cache d products_key = None \<longrightarrow>
      updater_demo (now e') np' (getQueryData products_key d) = None
      \<and> cache (snd (onMutate_demo e' np' d)) = cache d
      \<and> onError err' np' (Some (fst (onMutate_demo e' np' d))) w' = w'
      \<and> cache (mutate_demo e' np' d) = cache d
      \<and> count_list (calls (mutate_demo e' np' d)) (SetQueryData products_key)
          = count_list (calls d) (SetQueryData products_key) + 1)"
proof -
  have one: "cache s products_key = None \<Longrightarrow>
      cache (mutate e np s) = cache s
      \<and> count_list (calls (mutate e np s)) (SetQueryData products_key)
          = count_list (calls s) (SetQueryData products_key) + 1"
    by (auto simp add: component_defs
        split: option.splits sum.splits fetch_result.splits if_splits prod.splits)
  have two: "cache d products_key = None \<Longrightarrow>
      cache (mutate_demo e' np' d) = cache d
      \<and> count_list (calls (mutate_demo e' np' d)) (SetQueryData products_key)
          = count_list (calls d) (SetQueryData products_key) + 1"
    by (auto simp add: component_defs
        split: option.splits sum.splits fetch_result.splits if_splits prod.splits
          demo_mode.splits)
  show ?thesis
    using one two
    by (simp add: getQueryData_def updater_def updater_demo_def cache_onMutate
        cache_onMutate_demo onError_without_snapshot snapshot_onMutate
        snapshot_onMutate_demo)
qed

theorem unloaded_cache_stays_unloaded_witness:
  "cache world_unloaded products_key = None
   \<and> cache (mutate env_reject pen world_unloaded) products_key = None
   \<and> cache (mutate env_ok pen world_unloaded) products_key = None
   \<and> cache (demo_unloaded ErrorMode) products_key = None
   \<and> cache (mutate_demo env_ok pen (demo_unloaded ErrorMode)) products_key = None
   \<and> cache (mutate_demo env_ok pen (demo_unloaded Normal)) products_key = None"
proof -
  have unloaded: "cache world_unloaded products_key = None"
    by (simp add: world_unloaded_def)
  have unloaded_demo: "cache (demo_unloaded m) products_key = None" for m
    by (simp add: demo_unloaded_def)
  have failing: "cache (mutate env_reject pen world_unloaded) = cache world_unloaded
      \<and> cache (mutate_demo env_ok pen (demo_unloaded ErrorMode))
          = cache (demo_unloaded ErrorMode)"
    using unloaded unloaded_demo [of ErrorMode]
      unloaded_cache_stays_unloaded [where s = world_unloaded and e = env_reject
        and np = pen and d = "demo_unloaded ErrorMode" and e' = env_ok and np' = pen
        and err = "Error []" and w = world_unloaded and err' = "Error []"
        and w' = world_unloaded]
    by simp
  have succeeding: "cache (mutate env_ok pen world_unloaded) = cache world_unloaded
      \<and> cache (mutate_demo env_ok pen (demo_unloaded Normal)) = cache (demo_unloaded Normal)"
    using unloaded unloaded_demo [of Normal]
      unloaded_cache_stays_unloaded [where s = world_unloaded and e = env_ok
        and np = pen and d = "demo_unloaded Normal" and e' = env_ok and np' = pen
        and err = "Error []" and w = world_unloaded and err' = "Error []"
        and w' = world_unloaded]
    by simp
  show ?thesis
    using failing succeeding unloaded unloaded_demo by simp
qed

end
